theory Spec2Isabelle
  imports Main
begin

section \<open>The startup script \<^verbatim>\<open>app/startup.py\<close>\<close>

text \<open>
  The script pre-loads the models of an external face-recognition library, lists the
  cached weight files and leaves with \<^verbatim>\<open>sys.exit(0)\<close>. It has no data of its own:
  everything it does is a call of the library or of \<^verbatim>\<open>pathlib\<close>, a \<^verbatim>\<open>print\<close>,
  and exception handling around them. The embedding therefore makes three things
  explicit: the exceptions, the environment the calls run against, and the trace of
  what a run does.
\<close>

subsection \<open>Exceptions\<close>

text \<open>
  Python's handlers select by class. \<^verbatim>\<open>ImportError\<close> (with its subclass
  \<^verbatim>\<open>ModuleNotFoundError\<close>) is an \<^verbatim>\<open>Exception\<close>; \<^verbatim>\<open>KeyboardInterrupt\<close> and
  \<^verbatim>\<open>SystemExit\<close> derive from \<^verbatim>\<open>BaseException\<close> only, so a handler
  \<^verbatim>\<open>except Exception\<close> lets them pass. \<^verbatim>\<open>PermissionError\<close> is the subclass of
  \<^verbatim>\<open>OSError\<close> that \<^verbatim>\<open>pathlib\<close> treats on its own; \<open>OSError\<close> stands for the other
  instances of \<^verbatim>\<open>OSError\<close>, \<open>OtherException\<close> for every other instance of
  \<^verbatim>\<open>Exception\<close> (\<^verbatim>\<open>UnicodeEncodeError\<close> among them). The string carried is what
  \<^verbatim>\<open>str(e)\<close> gives.
\<close>

datatype exn =
    ImportError string
  | PermissionError string
  | OSError string
  | OtherException string
  | KeyboardInterrupt
  | SystemExit nat

fun is_import_error :: "exn \<Rightarrow> bool" where
  "is_import_error (ImportError _) = True"
| "is_import_error _ = False"

fun is_exception :: "exn \<Rightarrow> bool" where
  "is_exception (ImportError _) = True"
| "is_exception (PermissionError _) = True"
| "is_exception (OSError _) = True"
| "is_exception (OtherException _) = True"
| "is_exception KeyboardInterrupt = False"
| "is_exception (SystemExit _) = False"

subsection \<open>Strings\<close>

text \<open>
  Strings are byte strings; the non-ASCII symbols of the messages are written as their
  UTF-8 encodings.
\<close>

definition nl :: string where
  "nl = [CHR 0x0A]"

definition arrow :: string where
  "arrow = [CHR 0xE2, CHR 0x86, CHR 0x92]"

definition check_mark :: string where
  "check_mark = [CHR 0xE2, CHR 0x9C, CHR 0x93]"

definition cross_mark :: string where
  "cross_mark = [CHR 0xE2, CHR 0x9C, CHR 0x97]"

definition warning_sign :: string where
  "warning_sign = [CHR 0xE2, CHR 0x9A, CHR 0xA0]"

definition rocket :: string where
  "rocket = [CHR 0xF0, CHR 0x9F, CHR 0x9A, CHR 0x80]"

text \<open>\<^verbatim>\<open>str(n)\<close> for a natural number, as the f-strings format \<^verbatim>\<open>len(...)\<close>.\<close>

fun str_nat :: "nat \<Rightarrow> string" where
  "str_nat n =
     (if n < 10 then [''0123456789'' ! n]
      else str_nat (n div 10) @ [''0123456789'' ! (n mod 10)])"

declare str_nat.simps [simp del]

fun exn_str :: "exn \<Rightarrow> string" where
  "exn_str (ImportError msg) = msg"
| "exn_str (PermissionError msg) = msg"
| "exn_str (OSError msg) = msg"
| "exn_str (OtherException msg) = msg"
| "exn_str KeyboardInterrupt = []"
| "exn_str (SystemExit n) = str_nat n"

subsection \<open>Paths and the file system\<close>

text \<open>
  A path is the list of its components below the root (\<^verbatim>\<open>PosixPath\<close>); \<^verbatim>\<open>p / c\<close>
  appends a component. The file system maps a path to the entries of the directory
  there, in the order the operating system enumerates them, or to \<open>None\<close> where there
  is nothing.
\<close>

type_synonym path = "string list"

datatype entry_kind = RegularFile | Directory

type_synonym dir_entry = "string \<times> entry_kind"

type_synonym filesystem = "path \<Rightarrow> dir_entry list option"

definition path_str :: "path \<Rightarrow> string" where
  "path_str p = (if p = [] then ''/'' else concat (map (\<lambda>c. ''/'' @ c) p))"

definition path_name :: "path \<Rightarrow> string" where
  "path_name p = (if p = [] then [] else last p)"

subsection \<open>The environment\<close>

text \<open>
  What the script cannot decide: whether the two imports succeed, what
  \<^verbatim>\<open>DeepFace.build_model\<close> does (it may raise, and it may write the weights
  directory), what \<^verbatim>\<open>Path.home()\<close> returns, and whether \<^verbatim>\<open>stat\<close> or
  \<^verbatim>\<open>scandir\<close> fail on a path. \<open>None\<close> is a call that returns, \<open>Some e\<close> one
  that raises \<open>e\<close>. The outcome of an import statement is the same each time it is
  executed in one run: a module that was imported stays in \<^verbatim>\<open>sys.modules\<close>, and one
  that cannot be imported fails again in the same way. \<open>glob_ignores_oserror\<close> is the
  version of \<^verbatim>\<open>pathlib\<close>: its \<^verbatim>\<open>glob\<close> passes over a \<^verbatim>\<open>PermissionError\<close> of
  \<^verbatim>\<open>scandir\<close> in every version, and over every \<^verbatim>\<open>OSError\<close> from Python 3.12 on.
\<close>

record env =
  deepface_import :: "exn option"
  functions_import :: "exn option"
  build_model :: "string \<Rightarrow> filesystem \<Rightarrow> exn option \<times> filesystem"
  path_home :: "exn + path"
  stat_error :: "path \<Rightarrow> exn option"
  scandir_error :: "path \<Rightarrow> exn option"
  glob_ignores_oserror :: bool

subsection \<open>Runs\<close>

text \<open>
  A statement runs on a file system and gives its result (\<open>Inl e\<close>: it raised \<open>e\<close>),
  the events it produced, in order, and the file system it leaves. \<open>py_print\<close> is
  \<^verbatim>\<open>print\<close> on a standard output that accepts the line; the output is the list of the
  printed arguments. \<^verbatim>\<open>print\<close> on a standard output that may refuse a line is
  \<open>print_on\<close>, further down, and the script is given for both.
\<close>

datatype event =
    Print string
  | ImportDeepFace
  | ImportFunctions
  | BuildModel string "exn option"
  | PathHome
  | PathExists path
  | PathGlob path string

type_synonym 'a action = "filesystem \<Rightarrow> (exn + 'a) \<times> event list \<times> filesystem"

definition ret :: "'a \<Rightarrow> 'a action" where
  "ret x fs = (Inr x, [], fs)"

definition raise :: "exn \<Rightarrow> 'a action" where
  "raise e fs = (Inl e, [], fs)"

definition py_print :: "string \<Rightarrow> unit action" where
  "py_print s fs = (Inr (), [Print s], fs)"

text \<open>\<open>seq m k\<close>: run \<open>m\<close>, then \<open>k\<close> on its value; an exception of \<open>m\<close> skips \<open>k\<close>.\<close>

definition seq :: "'a action \<Rightarrow> ('a \<Rightarrow> 'b action) \<Rightarrow> 'b action" where
  "seq m k fs =
     (case m fs of
        (Inl e, evs, fs') \<Rightarrow> (Inl e, evs, fs')
      | (Inr x, evs, fs') \<Rightarrow>
          (case k x fs' of (r, evs', fs'') \<Rightarrow> (r, evs @ evs', fs'')))"

text \<open>A block of statements, run in order up to the first that raises.\<close>

fun block :: "unit action list \<Rightarrow> unit action" where
  "block [] fs = (Inr (), [], fs)"
| "block (a # as) fs =
     (case a fs of
        (Inl e, evs, fs') \<Rightarrow> (Inl e, evs, fs')
      | (Inr _, evs, fs') \<Rightarrow>
          (case block as fs' of (r, evs', fs'') \<Rightarrow> (r, evs @ evs', fs'')))"

text \<open>\<^verbatim>\<open>for x in xs: body\<close>.\<close>

definition for_each :: "'a list \<Rightarrow> ('a \<Rightarrow> unit action) \<Rightarrow> unit action" where
  "for_each xs body = block (map body xs)"

text \<open>
  \<^verbatim>\<open>try: m except C1: h1 except C2: h2\<close>. The first clause whose class matches
  handles the exception; with no such clause the exception propagates.
\<close>

fun select_handler :: "((exn \<Rightarrow> bool) \<times> (exn \<Rightarrow> 'a action)) list \<Rightarrow> exn \<Rightarrow> 'a action option" where
  "select_handler [] e = None"
| "select_handler ((c, h) # hs) e = (if c e then Some (h e) else select_handler hs e)"

definition try_except ::
  "'a action \<Rightarrow> ((exn \<Rightarrow> bool) \<times> (exn \<Rightarrow> 'a action)) list \<Rightarrow> 'a action" where
  "try_except m hs fs =
     (case m fs of
        (Inr x, evs, fs') \<Rightarrow> (Inr x, evs, fs')
      | (Inl e, evs, fs') \<Rightarrow>
          (case select_handler hs e of
             None \<Rightarrow> (Inl e, evs, fs')
           | Some h \<Rightarrow> (case h fs' of (r, evs', fs'') \<Rightarrow> (r, evs @ evs', fs''))))"

subsection \<open>The calls into the library and into \<^verbatim>\<open>pathlib\<close>\<close>

definition import_deepface :: "env \<Rightarrow> unit action" where
  "import_deepface env fs =
     ((case deepface_import env of None \<Rightarrow> Inr () | Some e \<Rightarrow> Inl e), [ImportDeepFace], fs)"

definition import_functions :: "env \<Rightarrow> unit action" where
  "import_functions env fs =
     ((case functions_import env of None \<Rightarrow> Inr () | Some e \<Rightarrow> Inl e), [ImportFunctions], fs)"

definition call_build_model :: "env \<Rightarrow> string \<Rightarrow> unit action" where
  "call_build_model env model_name fs =
     (case build_model env model_name fs of
        (r, fs') \<Rightarrow>
          ((case r of None \<Rightarrow> Inr () | Some e \<Rightarrow> Inl e), [BuildModel model_name r], fs'))"

definition Path_home :: "env \<Rightarrow> path action" where
  "Path_home env fs = (path_home env, [PathHome], fs)"

definition path_exists :: "env \<Rightarrow> path \<Rightarrow> bool action" where
  "path_exists env p fs =
     ((case stat_error env p of Some e \<Rightarrow> Inl e | None \<Rightarrow> Inr (fs p \<noteq> None)),
      [PathExists p], fs)"

text \<open>
  \<^verbatim>\<open>list(p.glob("*"))\<close>. \<^verbatim>\<open>pathlib\<close> matches the names of the entries of \<open>p\<close>
  against the pattern with \<^verbatim>\<open>fnmatch\<close>; unlike the \<^verbatim>\<open>glob\<close> module it does not
  treat a leading dot specially, and it does not look at the kind of an entry. So
  \<^verbatim>\<open>"*"\<close> gives one path for every entry, in enumeration order, and nothing for a
  path that is not a directory. An error of \<^verbatim>\<open>scandir\<close> that \<^verbatim>\<open>glob\<close> passes over
  gives nothing either; any other error is raised.
\<close>

definition swallowed_by_glob :: "env \<Rightarrow> exn \<Rightarrow> bool" where
  "swallowed_by_glob env e =
     (case e of
        PermissionError _ \<Rightarrow> True
      | OSError _ \<Rightarrow> glob_ignores_oserror env
      | _ \<Rightarrow> False)"

definition path_glob :: "env \<Rightarrow> path \<Rightarrow> path list action" where
  "path_glob env p fs =
     ((case scandir_error env p of
         Some e \<Rightarrow> if swallowed_by_glob env e then Inr [] else Inl e
       | None \<Rightarrow> Inr (case fs p of None \<Rightarrow> [] | Some es \<Rightarrow> map (\<lambda>ent. p @ [fst ent]) es)),
      [PathGlob p ''*''], fs)"

subsection \<open>\<^verbatim>\<open>preload_deepface_models\<close>\<close>

definition models :: "string list" where
  "models = [''Facenet'']"

definition detectors :: "string list" where
  "detectors = [''opencv'']"

definition banner :: string where
  "banner = replicate 60 (CHR ''='')"

definition loading_line :: "string \<Rightarrow> string" where
  "loading_line model_name = nl @ arrow @ '' Loading '' @ model_name @ ''...''"

definition loaded_line :: "string \<Rightarrow> string" where
  "loaded_line model_name = check_mark @ '' '' @ model_name @ '' loaded successfully''"

definition failed_line :: "string \<Rightarrow> exn \<Rightarrow> string" where
  "failed_line model_name e =
     cross_mark @ '' Failed to load '' @ model_name @ '': '' @ exn_str e"

definition probing_line :: "string \<Rightarrow> string" where
  "probing_line detector = nl @ arrow @ '' Loading '' @ detector @ '' detector...''"

definition available_line :: "string \<Rightarrow> string" where
  "available_line detector = check_mark @ '' '' @ detector @ '' detector available''"

definition deferred_line :: "string \<Rightarrow> string" where
  "deferred_line detector =
     warning_sign @ '' Note: '' @ detector @ '' detector will load on first use''"

definition not_installed_line :: string where
  "not_installed_line = cross_mark @ '' DeepFace not installed. Skipping model pre-loading.''"

definition preload_error_line :: "exn \<Rightarrow> string" where
  "preload_error_line e = cross_mark @ '' Error during model pre-loading: '' @ exn_str e"

text \<open>The body of the loop over the models (lines 37 to 43).\<close>

definition load_model :: "env \<Rightarrow> string \<Rightarrow> unit action" where
  "load_model env model_name =
     seq (py_print (loading_line model_name)) (\<lambda>_.
       try_except
         (seq (call_build_model env model_name) (\<lambda>_.
            py_print (loaded_line model_name)))
         [(is_exception, \<lambda>e. py_print (failed_line model_name e))])"

text \<open>The body of the loop over the detectors (lines 47 to 54).\<close>

definition probe_detector :: "env \<Rightarrow> string \<Rightarrow> unit action" where
  "probe_detector env detector =
     seq (py_print (probing_line detector)) (\<lambda>_.
       try_except
         (seq (import_functions env) (\<lambda>_.
            py_print (available_line detector)))
         [(is_exception, \<lambda>e. py_print (deferred_line detector))])"

definition preload_deepface_models :: "env \<Rightarrow> bool action" where
  "preload_deepface_models env =
     try_except
       (seq
          (block
             [py_print banner,
              py_print ''Starting DeepFace model pre-loading...'',
              py_print banner,
              import_deepface env,
              py_print (nl @ ''Pre-loading '' @ str_nat (length models) @ '' recognition model(s)...''),
              for_each models (load_model env),
              py_print (nl @ nl @ ''Pre-loading '' @ str_nat (length detectors) @ '' detector(s)...''),
              for_each detectors (probe_detector env),
              py_print (nl @ banner),
              py_print (check_mark @ '' DeepFace model pre-loading complete!''),
              py_print banner])
          (\<lambda>_. ret True))
       [(is_import_error, \<lambda>e. seq (py_print not_installed_line) (\<lambda>_. ret False)),
        (is_exception, \<lambda>e. seq (py_print (preload_error_line e)) (\<lambda>_. ret False))]"

subsection \<open>\<^verbatim>\<open>verify_weights\<close>\<close>

definition found_line :: "nat \<Rightarrow> path \<Rightarrow> string" where
  "found_line n weights_dir =
     nl @ check_mark @ '' Found '' @ str_nat n @ '' weight file(s) in '' @ path_str weights_dir"

definition file_line :: "path \<Rightarrow> string" where
  "file_line weight_file = ''  - '' @ path_name weight_file"

definition more_line :: "nat \<Rightarrow> string" where
  "more_line n = ''  ... and '' @ str_nat n @ '' more''"

definition not_found_line :: "path \<Rightarrow> string" where
  "not_found_line weights_dir =
     nl @ warning_sign @ '' Weights directory not found: '' @ path_str weights_dir"

definition verify_error_line :: "exn \<Rightarrow> string" where
  "verify_error_line e = warning_sign @ '' Could not verify weights: '' @ exn_str e"

definition weights_dir_of :: "path \<Rightarrow> path" where
  "weights_dir_of home = (home @ [''.deepface'']) @ [''weights'']"

definition verify_weights :: "env \<Rightarrow> unit action" where
  "verify_weights env =
     try_except
       (seq (Path_home env) (\<lambda>home.
          let weights_dir = weights_dir_of home in
          seq (path_exists env weights_dir) (\<lambda>ex.
            if ex then
              seq (path_glob env weights_dir) (\<lambda>weight_files.
                block
                  ([py_print (found_line (length weight_files) weights_dir)]
                   @ map (\<lambda>weight_file. py_print (file_line weight_file)) (take 5 weight_files)
                   @ (if length weight_files > 5
                      then [py_print (more_line (length weight_files - 5))]
                      else [])))
            else py_print (not_found_line weights_dir))))
       [(is_exception, \<lambda>e. py_print (verify_error_line e))]"

subsection \<open>The entry point\<close>

definition sys_exit :: "nat \<Rightarrow> unit action" where
  "sys_exit n = raise (SystemExit n)"

definition main :: "env \<Rightarrow> unit action" where
  "main env =
     seq (py_print (nl @ rocket @ '' Running startup script...'' @ nl)) (\<lambda>_.
     seq (preload_deepface_models env) (\<lambda>success.
     seq (verify_weights env) (\<lambda>_.
       if success then
         seq (py_print (nl @ check_mark @ '' Startup script completed successfully'')) (\<lambda>_.
           sys_exit 0)
       else
         seq (py_print (nl @ warning_sign @ '' Startup script completed with warnings'')) (\<lambda>_.
           sys_exit 0))))"

text \<open>
  The status the interpreter leaves with when the final flush of standard output
  succeeds: the code of a \<^verbatim>\<open>SystemExit\<close> modulo 256, 130 (128 + SIGINT) for an
  unhandled \<^verbatim>\<open>KeyboardInterrupt\<close>, 1 for any other unhandled exception, 0 when the
  module runs to its end.
\<close>

fun exit_status :: "exn + unit \<Rightarrow> nat" where
  "exit_status (Inr _) = 0"
| "exit_status (Inl (SystemExit n)) = n mod 256"
| "exit_status (Inl KeyboardInterrupt) = 130"
| "exit_status (Inl _) = 1"

definition run_script :: "env \<Rightarrow> filesystem \<Rightarrow> nat \<times> event list \<times> filesystem" where
  "run_script env fs = (case main env fs of (r, evs, fs') \<Rightarrow> (exit_status r, evs, fs'))"

subsection \<open>The script on a standard output that may fail\<close>

text \<open>
  \<^verbatim>\<open>print\<close> raises when standard output cannot take the line:
  \<^verbatim>\<open>UnicodeEncodeError\<close> when the encoding has no code for a character, an
  \<^verbatim>\<open>OSError\<close> when the device refuses the write. A standard output says for every
  line whether writing it raises, and whether the flush at interpreter shutdown fails.
  A line that is refused leaves no event.
\<close>

record stdout =
  write_error :: "string \<Rightarrow> exn option"
  flush_error :: "exn option"

definition print_on :: "stdout \<Rightarrow> string \<Rightarrow> unit action" where
  "print_on out s fs =
     (case write_error out s of
        None \<Rightarrow> (Inr (), [Print s], fs)
      | Some e \<Rightarrow> (Inl e, [], fs))"

text \<open>
  The script once more, statement by statement as above, with every \<^verbatim>\<open>print\<close> on the
  standard output \<open>out\<close>. The handlers print too, and lines 90, 99 and 102 print outside
  every \<^verbatim>\<open>try\<close>.
\<close>

definition load_model_on :: "stdout \<Rightarrow> env \<Rightarrow> string \<Rightarrow> unit action" where
  "load_model_on out env model_name =
     seq (print_on out (loading_line model_name)) (\<lambda>_.
       try_except
         (seq (call_build_model env model_name) (\<lambda>_.
            print_on out (loaded_line model_name)))
         [(is_exception, \<lambda>e. print_on out (failed_line model_name e))])"

definition probe_detector_on :: "stdout \<Rightarrow> env \<Rightarrow> string \<Rightarrow> unit action" where
  "probe_detector_on out env detector =
     seq (print_on out (probing_line detector)) (\<lambda>_.
       try_except
         (seq (import_functions env) (\<lambda>_.
            print_on out (available_line detector)))
         [(is_exception, \<lambda>e. print_on out (deferred_line detector))])"

definition preload_deepface_models_on :: "stdout \<Rightarrow> env \<Rightarrow> bool action" where
  "preload_deepface_models_on out env =
     try_except
       (seq
          (block
             [print_on out banner,
              print_on out ''Starting DeepFace model pre-loading...'',
              print_on out banner,
              import_deepface env,
              print_on out (nl @ ''Pre-loading '' @ str_nat (length models) @ '' recognition model(s)...''),
              for_each models (load_model_on out env),
              print_on out (nl @ nl @ ''Pre-loading '' @ str_nat (length detectors) @ '' detector(s)...''),
              for_each detectors (probe_detector_on out env),
              print_on out (nl @ banner),
              print_on out (check_mark @ '' DeepFace model pre-loading complete!''),
              print_on out banner])
          (\<lambda>_. ret True))
       [(is_import_error, \<lambda>e. seq (print_on out not_installed_line) (\<lambda>_. ret False)),
        (is_exception, \<lambda>e. seq (print_on out (preload_error_line e)) (\<lambda>_. ret False))]"

definition verify_weights_on :: "stdout \<Rightarrow> env \<Rightarrow> unit action" where
  "verify_weights_on out env =
     try_except
       (seq (Path_home env) (\<lambda>home.
          let weights_dir = weights_dir_of home in
          seq (path_exists env weights_dir) (\<lambda>ex.
            if ex then
              seq (path_glob env weights_dir) (\<lambda>weight_files.
                block
                  ([print_on out (found_line (length weight_files) weights_dir)]
                   @ map (\<lambda>weight_file. print_on out (file_line weight_file)) (take 5 weight_files)
                   @ (if length weight_files > 5
                      then [print_on out (more_line (length weight_files - 5))]
                      else [])))
            else print_on out (not_found_line weights_dir))))
       [(is_exception, \<lambda>e. print_on out (verify_error_line e))]"

definition main_on :: "stdout \<Rightarrow> env \<Rightarrow> unit action" where
  "main_on out env =
     seq (print_on out (nl @ rocket @ '' Running startup script...'' @ nl)) (\<lambda>_.
     seq (preload_deepface_models_on out env) (\<lambda>success.
     seq (verify_weights_on out env) (\<lambda>_.
       if success then
         seq (print_on out (nl @ check_mark @ '' Startup script completed successfully'')) (\<lambda>_.
           sys_exit 0)
       else
         seq (print_on out (nl @ warning_sign @ '' Startup script completed with warnings'')) (\<lambda>_.
           sys_exit 0))))"

text \<open>
  The status of the process: an unhandled \<^verbatim>\<open>KeyboardInterrupt\<close> ends it by SIGINT;
  otherwise a failed flush at shutdown makes the status 120, whatever it was.
\<close>

definition exit_status_on :: "stdout \<Rightarrow> exn + unit \<Rightarrow> nat" where
  "exit_status_on out r =
     (case r of
        Inl KeyboardInterrupt \<Rightarrow> 130
      | _ \<Rightarrow> (if flush_error out = None then exit_status r else 120))"

definition run_script_on :: "stdout \<Rightarrow> env \<Rightarrow> filesystem \<Rightarrow> nat \<times> event list \<times> filesystem" where
  "run_script_on out env fs =
     (case main_on out env fs of (r, evs, fs') \<Rightarrow> (exit_status_on out r, evs, fs'))"

text \<open>A standard output that accepts every line and flushes.\<close>

definition stdout_accepts :: "stdout \<Rightarrow> bool" where
  "stdout_accepts out \<longleftrightarrow> (\<forall>s. write_error out s = None) \<and> flush_error out = None"

subsection \<open>Reading a trace\<close>

definition printed :: "event list \<Rightarrow> string list" where
  "printed evs = concat (map (\<lambda>ev. case ev of Print s \<Rightarrow> [s] | _ \<Rightarrow> []) evs)"

definition attempts :: "event list \<Rightarrow> string list" where
  "attempts evs = concat (map (\<lambda>ev. case ev of BuildModel m _ \<Rightarrow> [m] | _ \<Rightarrow> []) evs)"

text \<open>
  A failed load attempt is logged when the event that records it is directly followed
  by the print of its failure line, which names the model and carries \<^verbatim>\<open>str(e)\<close>.
\<close>

fun failures_logged :: "event list \<Rightarrow> bool" where
  "failures_logged [] = True"
| "failures_logged (BuildModel m (Some e) # evs) =
     ((case evs of Print s # _ \<Rightarrow> s = failed_line m e | _ \<Rightarrow> False) \<and> failures_logged evs)"
| "failures_logged (ev # evs) = failures_logged evs"

subsection \<open>Parts of the traces\<close>

text \<open>
  The events of \<^verbatim>\<open>preload_deepface_models\<close> up to and including the import, and the
  lines \<^verbatim>\<open>verify_weights\<close> prints for a directory with the entries \<open>es\<close>.
\<close>

definition preamble :: "event list" where
  "preamble = [Print banner, Print ''Starting DeepFace model pre-loading...'', Print banner, ImportDeepFace]"

definition listing :: "path \<Rightarrow> dir_entry list \<Rightarrow> string list" where
  "listing weights_dir es =
     found_line (length es) weights_dir
     # map (\<lambda>ent. ''  - '' @ fst ent) (take 5 es)
     @ (if length es > 5 then [more_line (length es - 5)] else [])"

text \<open>The first exception a call of \<^verbatim>\<open>pathlib\<close> raises inside \<^verbatim>\<open>verify_weights\<close>, if any.\<close>

definition first_pathlib_error :: "env \<Rightarrow> filesystem \<Rightarrow> exn option" where
  "first_pathlib_error env fs =
     (case path_home env of
        Inl e \<Rightarrow> Some e
      | Inr home \<Rightarrow>
          (case stat_error env (weights_dir_of home) of
             Some e \<Rightarrow> Some e
           | None \<Rightarrow>
               (case fs (weights_dir_of home) of
                  None \<Rightarrow> None
                | Some _ \<Rightarrow>
                    (case scandir_error env (weights_dir_of home) of
                       None \<Rightarrow> None
                     | Some e \<Rightarrow> if swallowed_by_glob env e then None else Some e))))"

subsection \<open>Environments whose failures are instances of \<^verbatim>\<open>Exception\<close>\<close>

text \<open>
  A call fails when it raises an instance of \<^verbatim>\<open>Exception\<close>, the class every handler
  of the script names. The predicates say that the calls of the library, of
  \<^verbatim>\<open>pathlib\<close>, and the load attempts for the models \<open>ms\<close> raise nothing else.
\<close>

definition library_raises_only_exceptions :: "env \<Rightarrow> bool" where
  "library_raises_only_exceptions env \<longleftrightarrow>
     (\<forall>e. deepface_import env = Some e \<longrightarrow> is_exception e) \<and>
     (\<forall>e. functions_import env = Some e \<longrightarrow> is_exception e) \<and>
     (\<forall>m fs e. fst (build_model env m fs) = Some e \<longrightarrow> is_exception e)"

definition pathlib_raises_only_exceptions :: "env \<Rightarrow> bool" where
  "pathlib_raises_only_exceptions env \<longleftrightarrow>
     (\<forall>e. path_home env = Inl e \<longrightarrow> is_exception e) \<and>
     (\<forall>p e. stat_error env p = Some e \<longrightarrow> is_exception e) \<and>
     (\<forall>p e. scandir_error env p = Some e \<longrightarrow> is_exception e)"

definition loads_raise_only_exceptions :: "env \<Rightarrow> string list \<Rightarrow> bool" where
  "loads_raise_only_exceptions env ms \<longleftrightarrow>
     (\<forall>m \<in> set ms. \<forall>fs e. fst (build_model env m fs) = Some e \<longrightarrow> is_exception e)"

subsection \<open>Sample environments and file systems\<close>

text \<open>
  \<open>env_ok\<close>: everything succeeds and the library writes one weight file.
  \<open>env_load_fails\<close>: the download of Facenet fails and the helper module cannot be
  imported. \<open>env_not_installed\<close>: the library is absent. \<open>env_interrupted\<close>: the
  download is interrupted from the keyboard. \<open>env_unreadable\<close>: as \<open>env_load_fails\<close>,
  and \<^verbatim>\<open>stat\<close> is refused.
\<close>

definition home_ci :: path where
  "home_ci = [''home'', ''ci'']"

definition fs_empty :: filesystem where
  "fs_empty = (\<lambda>p. None)"

definition env_ok :: env where
  "env_ok =
     \<lparr>deepface_import = None,
      functions_import = None,
      build_model = (\<lambda>model_name fs.
        (None, fs(weights_dir_of home_ci \<mapsto> [(''facenet_weights.h5'', RegularFile)]))),
      path_home = Inr home_ci,
      stat_error = (\<lambda>p. None),
      scandir_error = (\<lambda>p. None),
      glob_ignores_oserror = False\<rparr>"

definition env_load_fails :: env where
  "env_load_fails =
     env_ok\<lparr>functions_import := Some (ImportError ''cannot import name functions''),
            build_model := (\<lambda>model_name fs.
              (if model_name = ''Facenet'' then Some (OtherException ''download failed'')
               else None, fs))\<rparr>"

definition env_not_installed :: env where
  "env_not_installed =
     env_ok\<lparr>deepface_import := Some (ImportError ''No module named deepface'')\<rparr>"

definition env_interrupted :: env where
  "env_interrupted =
     env_ok\<lparr>build_model := (\<lambda>model_name fs. (Some KeyboardInterrupt, fs))\<rparr>"

definition env_unreadable :: env where
  "env_unreadable =
     env_load_fails\<lparr>stat_error := (\<lambda>p. Some (PermissionError ''Permission denied''))\<rparr>"

definition fs_seven :: filesystem where
  "fs_seven =
     fs_empty(weights_dir_of home_ci \<mapsto>
       [(''a.h5'', RegularFile), (''b.h5'', RegularFile), (''c.h5'', RegularFile),
        (''d.h5'', RegularFile), (''e.h5'', RegularFile), (''f.h5'', RegularFile),
        (''g.h5'', RegularFile)])"

definition fs_no_files :: filesystem where
  "fs_no_files = fs_empty(weights_dir_of home_ci \<mapsto> [])"

definition fs_hidden :: filesystem where
  "fs_hidden =
     fs_empty(weights_dir_of home_ci \<mapsto> [(''.gitkeep'', RegularFile), (''.cache'', Directory)])"

definition fs_mixed :: filesystem where
  "fs_mixed =
     fs_empty(weights_dir_of home_ci \<mapsto>
       [(''.gitkeep'', RegularFile), (''models'', Directory), (''facenet_weights.h5'', RegularFile)])"

text \<open>
  Three standard outputs: one that accepts every line, one whose encoding is ASCII, and
  a full device, where the writes are buffered and the flush at shutdown fails.
\<close>

definition accepting_stdout :: stdout where
  "accepting_stdout = \<lparr>write_error = (\<lambda>s. None), flush_error = None\<rparr>"

definition ascii_stdout :: stdout where
  "ascii_stdout =
     \<lparr>write_error = (\<lambda>s.
        if list_all (\<lambda>c. of_char c < (128::nat)) s then None
        else Some (OtherException ''ascii codec cannot encode character'')),
      flush_error = None\<rparr>"

definition full_device :: stdout where
  "full_device =
     \<lparr>write_error = (\<lambda>s. None),
      flush_error = Some (OSError ''No space left on device'')\<rparr>"

section \<open>Lemmas\<close>

text \<open>Unfolding the sample environments and the program text.\<close>

lemmas env_defs = env_ok_def env_load_fails_def env_not_installed_def env_interrupted_def
  home_ci_def fs_empty_def

lemmas ev = preload_deepface_models_def verify_weights_def main_def run_script_def
  load_model_def probe_detector_def for_each_def try_except_def seq_def py_print_def ret_def
  raise_def sys_exit_def import_deepface_def import_functions_def call_build_model_def
  Path_home_def path_exists_def path_glob_def models_def detectors_def Let_def

lemmas on_defs = preload_deepface_models_on_def verify_weights_on_def main_on_def
  run_script_on_def load_model_on_def probe_detector_on_def print_on_def exit_status_on_def
  for_each_def try_except_def seq_def ret_def raise_def sys_exit_def import_deepface_def
  import_functions_def call_build_model_def Path_home_def path_exists_def path_glob_def
  models_def detectors_def Let_def

subsection \<open>Traces\<close>

lemma attempts_append: "attempts (xs @ ys) = attempts xs @ attempts ys"
  by (simp add: attempts_def)

lemma printed_append: "printed (xs @ ys) = printed xs @ printed ys"
  by (simp add: printed_def)

lemma printed_Cons_Print: "printed (Print s # evs) = s # printed evs"
  by (simp add: printed_def)

lemma printed_map_Print: "printed (map Print ss) = ss"
  by (induction ss) (simp_all add: printed_def)

lemma last_printed_snoc: "last (printed (evs @ [Print s])) = s"
  by (simp add: printed_def)

lemma failures_logged_append:
  "failures_logged xs \<Longrightarrow> failures_logged ys \<Longrightarrow> failures_logged (xs @ ys)"
  by (induction xs rule: failures_logged.induct) (auto split: list.splits event.splits)

subsection \<open>Blocks and loops\<close>

lemma for_each_Nil: "for_each [] body fs = (Inr (), [], fs)"
  by (simp add: for_each_def)

lemma for_each_Cons:
  "for_each (x # xs) body fs =
     (case body x fs of
        (Inl e, evs, fs') \<Rightarrow> (Inl e, evs, fs')
      | (Inr _, evs, fs') \<Rightarrow>
          (case for_each xs body fs' of (r, evs', fs'') \<Rightarrow> (r, evs @ evs', fs'')))"
  unfolding for_each_def by simp

lemma for_each_frame:
  assumes "\<forall>x fs0. snd (snd (body x fs0)) = fs0"
  shows "snd (snd (for_each xs body fs)) = fs"
proof (induction xs)
  case Nil
  show ?case by (simp add: for_each_Nil)
next
  case (Cons x xs)
  obtain r evs where b: "body x fs = (r, evs, fs)"
    using assms by (metis prod.collapse)
  obtain r' evs' where rest: "for_each xs body fs = (r', evs', fs)"
    using Cons by (metis prod.collapse)
  show ?case
    by (cases r) (simp_all add: for_each_Cons b rest)
qed

lemma block_prints_then:
  "block (map py_print ss @ as) fs =
     (case block as fs of (r, evs, fs') \<Rightarrow> (r, map Print ss @ evs, fs'))"
  by (induction ss) (simp_all add: py_print_def split: prod.splits)

lemma block_prints: "block (map py_print ss) fs = (Inr (), map Print ss, fs)"
  using block_prints_then [of ss "[]" fs] by simp

subsection \<open>The loop over the models\<close>

text \<open>One iteration, by the outcome of \<^verbatim>\<open>DeepFace.build_model\<close>.\<close>

lemma load_model_result:
  "load_model env m fs =
     (case build_model env m fs of
        (None, fs') \<Rightarrow>
          (Inr (), [Print (loading_line m), BuildModel m None, Print (loaded_line m)], fs')
      | (Some e, fs') \<Rightarrow>
          if is_exception e
          then (Inr (), [Print (loading_line m), BuildModel m (Some e), Print (failed_line m e)], fs')
          else (Inl e, [Print (loading_line m), BuildModel m (Some e)], fs'))"
  by (simp add: load_model_def seq_def try_except_def py_print_def call_build_model_def
      split: prod.splits option.splits)

lemma load_model_fs: "snd (snd (load_model env m fs)) = snd (build_model env m fs)"
  by (simp add: load_model_result split: prod.splits option.splits)

text \<open>
  When the load attempts raise instances of \<^verbatim>\<open>Exception\<close> only, the loop runs to
  its end; an exception that leaves the loop is not an instance of \<^verbatim>\<open>Exception\<close>.
\<close>

lemma load_models_continue:
  assumes "\<forall>m \<in> set ms. \<forall>fs e. fst (build_model env m fs) = Some e \<longrightarrow> is_exception e"
  shows "case for_each ms (load_model env) fs of
           (r, evs, fs') \<Rightarrow> r = Inr () \<and> attempts evs = ms \<and> failures_logged evs"
  using assms
proof (induction ms arbitrary: fs)
  case Nil
  then show ?case by (simp add: for_each_Nil attempts_def)
next
  case (Cons m ms)
  obtain r fs1 where b: "build_model env m fs = (r, fs1)" by (cases "build_model env m fs")
  have exc: "\<And>e. r = Some e \<Longrightarrow> is_exception e"
    using Cons.prems b by (metis fst_conv list.set_intros(1))
  obtain r' evs' fs' where rest: "for_each ms (load_model env) fs1 = (r', evs', fs')"
    by (cases "for_each ms (load_model env) fs1")
  have ih: "r' = Inr () \<and> attempts evs' = ms \<and> failures_logged evs'"
    using Cons.IH [of fs1] Cons.prems rest by simp
  show ?case
  proof (cases r)
    case None
    have step: "load_model env m fs =
        (Inr (), [Print (loading_line m), BuildModel m None, Print (loaded_line m)], fs1)"
      using b None by (simp add: load_model_result)
    show ?thesis
      using ih by (simp add: for_each_Cons step rest attempts_def)
  next
    case (Some e)
    have step: "load_model env m fs =
        (Inr (), [Print (loading_line m), BuildModel m (Some e), Print (failed_line m e)], fs1)"
      using b Some exc [OF Some] by (simp add: load_model_result)
    show ?thesis
      using ih by (simp add: for_each_Cons step rest attempts_def)
  qed
qed

lemma load_models_raise:
  "for_each ms (load_model env) fs = (Inl e, evs, fs') \<Longrightarrow> \<not> is_exception e"
proof (induction ms arbitrary: fs evs fs')
  case Nil
  then show ?case by (simp add: for_each_Nil)
next
  case (Cons m ms)
  obtain r fs1 where b: "build_model env m fs = (r, fs1)" by (cases "build_model env m fs")
  obtain r' evs' fs'' where rest: "for_each ms (load_model env) fs1 = (r', evs', fs'')"
    by (cases "for_each ms (load_model env) fs1")
  show ?case
  proof (cases "\<exists>x. r = Some x \<and> \<not> is_exception x")
    case True
    then obtain x where x: "r = Some x" "\<not> is_exception x" by blast
    have "load_model env m fs = (Inl x, [Print (loading_line m), BuildModel m (Some x)], fs1)"
      using b x by (simp add: load_model_result)
    with Cons.prems have "e = x" by (simp add: for_each_Cons)
    with x show ?thesis by simp
  next
    case False
    then obtain evs0 where "load_model env m fs = (Inr (), evs0, fs1)"
      using b by (cases r) (auto simp: load_model_result)
    with Cons.prems rest have "r' = Inl e" by (simp add: for_each_Cons)
    with rest Cons.IH show ?thesis by blast
  qed
qed

lemma load_models_frame:
  assumes "\<forall>m fs0. snd (build_model env m fs0) = fs0"
  shows "snd (snd (for_each ms (load_model env) fs)) = fs"
  using assms by (intro for_each_frame) (simp add: load_model_fs)

subsection \<open>The loop over the detectors\<close>

lemma probe_detector_result:
  "probe_detector env d fs =
     (case functions_import env of
        None \<Rightarrow> (Inr (), [Print (probing_line d), ImportFunctions, Print (available_line d)], fs)
      | Some e \<Rightarrow>
          if is_exception e
          then (Inr (), [Print (probing_line d), ImportFunctions, Print (deferred_line d)], fs)
          else (Inl e, [Print (probing_line d), ImportFunctions], fs))"
  by (simp add: probe_detector_def seq_def try_except_def py_print_def import_functions_def
      split: prod.splits option.splits)

lemma probe_detectors_available:
  "functions_import env = None \<Longrightarrow>
   for_each ds (probe_detector env) fs =
     (Inr (),
      concat (map (\<lambda>d. [Print (probing_line d), ImportFunctions, Print (available_line d)]) ds),
      fs)"
proof (induction ds)
  case Nil
  show ?case by (simp add: for_each_Nil)
next
  case (Cons d ds)
  have step: "probe_detector env d fs =
      (Inr (), [Print (probing_line d), ImportFunctions, Print (available_line d)], fs)"
    using Cons.prems by (simp add: probe_detector_result)
  show ?case using Cons by (simp add: for_each_Cons step)
qed

lemma probe_detectors_deferred:
  "functions_import env = Some e \<Longrightarrow> is_exception e \<Longrightarrow>
   for_each ds (probe_detector env) fs =
     (Inr (),
      concat (map (\<lambda>d. [Print (probing_line d), ImportFunctions, Print (deferred_line d)]) ds),
      fs)"
proof (induction ds)
  case Nil
  show ?case by (simp add: for_each_Nil)
next
  case (Cons d ds)
  have step: "probe_detector env d fs =
      (Inr (), [Print (probing_line d), ImportFunctions, Print (deferred_line d)], fs)"
    using Cons.prems by (simp add: probe_detector_result)
  show ?case using Cons by (simp add: for_each_Cons step)
qed

lemma probe_detectors_raise:
  "functions_import env = Some e \<Longrightarrow> \<not> is_exception e \<Longrightarrow>
   for_each (d # ds) (probe_detector env) fs =
     (Inl e, [Print (probing_line d), ImportFunctions], fs)"
  by (simp add: for_each_Cons probe_detector_result)

lemma printed_probe_triples:
  "printed (concat (map (\<lambda>d. [Print (a d), ImportFunctions, Print (b d)]) ds)) =
     concat (map (\<lambda>d. [a d, b d]) ds)"
  by (induction ds) (simp_all add: printed_def)

lemma probe_detectors_cases:
  "case for_each ds (probe_detector env) fs of
     (r, evs, fs') \<Rightarrow>
       (functions_import env = None \<and> r = Inr () \<and>
          printed evs = concat (map (\<lambda>d. [probing_line d, available_line d]) ds))
     \<or> (\<exists>e. functions_import env = Some e \<and> is_exception e \<and> r = Inr () \<and>
          printed evs = concat (map (\<lambda>d. [probing_line d, deferred_line d]) ds))
     \<or> (\<exists>e. functions_import env = Some e \<and> \<not> is_exception e \<and>
          (if ds = [] then r = Inr () \<and> printed evs = []
           else r = Inl e \<and> printed evs = [probing_line (hd ds)]))"
proof (cases "functions_import env")
  case None
  then show ?thesis
    by (simp add: probe_detectors_available printed_probe_triples)
next
  case (Some e)
  show ?thesis
  proof (cases "is_exception e")
    case True
    with Some show ?thesis
      by (simp add: probe_detectors_deferred printed_probe_triples)
  next
    case False
    show ?thesis
    proof (cases ds)
      case Nil
      with Some False show ?thesis by (simp add: for_each_Nil printed_def)
    next
      case (Cons d ds')
      with Some False show ?thesis
        by (simp add: probe_detectors_raise printed_def)
    qed
  qed
qed

lemma probe_triples_no_attempts:
  "attempts (concat (map (\<lambda>d. [Print (a d), ImportFunctions, Print (b d)]) ds)) = [] \<and>
   failures_logged (concat (map (\<lambda>d. [Print (a d), ImportFunctions, Print (b d)]) ds))"
  by (induction ds) (simp_all add: attempts_def)

lemma probe_detectors_no_attempts:
  "attempts (fst (snd (for_each ds (probe_detector env) fs))) = [] \<and>
   failures_logged (fst (snd (for_each ds (probe_detector env) fs)))"
proof (cases "functions_import env")
  case None
  then show ?thesis
    by (simp add: probe_detectors_available probe_triples_no_attempts)
next
  case (Some e)
  show ?thesis
  proof (cases "is_exception e")
    case True
    with Some show ?thesis
      by (simp add: probe_detectors_deferred probe_triples_no_attempts)
  next
    case False
    with Some show ?thesis
      by (cases ds) (simp_all add: for_each_Nil probe_detectors_raise attempts_def)
  qed
qed

lemma probe_detectors_frame: "snd (snd (for_each ds (probe_detector env) fs)) = fs"
  by (intro for_each_frame) (simp add: probe_detector_result split: option.splits)

subsection \<open>\<^verbatim>\<open>preload_deepface_models\<close>\<close>

lemma is_import_error_exception: "is_import_error e \<Longrightarrow> is_exception e"
  by (cases e) simp_all

lemma preload_import_fails:
  "deepface_import env = Some e \<Longrightarrow>
   preload_deepface_models env fs =
     (if is_import_error e then (Inr False, preamble @ [Print not_installed_line], fs)
      else if is_exception e then (Inr False, preamble @ [Print (preload_error_line e)], fs)
      else (Inl e, preamble, fs))"
  by (simp add: preload_deepface_models_def try_except_def seq_def py_print_def ret_def
      import_deepface_def preamble_def)

lemma preload_import_ok:
  assumes "deepface_import env = None"
    and "for_each models (load_model env) fs = (r1, evs1, fs1)"
    and "for_each detectors (probe_detector env) fs1 = (r2, evs2, fs2)"
  shows "preload_deepface_models env fs =
     (case r1 of
        Inl e \<Rightarrow>
          (Inl e,
           preamble @ Print (nl @ ''Pre-loading '' @ str_nat (length models) @ '' recognition model(s)...'') # evs1,
           fs1)
      | Inr _ \<Rightarrow>
          (case r2 of
             Inl e \<Rightarrow>
               (Inl e,
                preamble @ Print (nl @ ''Pre-loading '' @ str_nat (length models) @ '' recognition model(s)...'') # evs1
                  @ Print (nl @ nl @ ''Pre-loading '' @ str_nat (length detectors) @ '' detector(s)...'') # evs2,
                fs2)
           | Inr _ \<Rightarrow>
               (Inr True,
                preamble @ Print (nl @ ''Pre-loading '' @ str_nat (length models) @ '' recognition model(s)...'') # evs1
                  @ Print (nl @ nl @ ''Pre-loading '' @ str_nat (length detectors) @ '' detector(s)...'') # evs2
                  @ [Print (nl @ banner), Print (check_mark @ '' DeepFace model pre-loading complete!''), Print banner],
                fs2)))"
proof -
  have n1: "\<And>e. r1 = Inl e \<Longrightarrow> \<not> is_exception e"
    using assms(2) load_models_raise by blast
  have n2: "\<And>e. r2 = Inl e \<Longrightarrow> \<not> is_exception e"
    using probe_detectors_cases [where ds = detectors and env = env and fs = fs1] assms(3)
    by (auto split: if_splits)
  have n1': "\<And>e. r1 = Inl e \<Longrightarrow> \<not> is_import_error e"
    using n1 is_import_error_exception by blast
  have n2': "\<And>e. r2 = Inl e \<Longrightarrow> \<not> is_import_error e"
    using n2 is_import_error_exception by blast
  show ?thesis
    using assms n1 n2 n1' n2'
    by (simp add: preload_deepface_models_def try_except_def seq_def py_print_def ret_def
        import_deepface_def preamble_def split: sum.splits)
qed

lemma preload_frame:
  assumes "\<forall>m fs0. snd (build_model env m fs0) = fs0"
  shows "snd (snd (preload_deepface_models env fs)) = fs"
proof (cases "deepface_import env")
  case (Some e)
  then show ?thesis by (simp add: preload_import_fails)
next
  case None
  obtain r1 evs1 where l: "for_each models (load_model env) fs = (r1, evs1, fs)"
    using load_models_frame [OF assms, of models fs] by (metis prod.collapse)
  obtain r2 evs2 where p: "for_each detectors (probe_detector env) fs = (r2, evs2, fs)"
    using probe_detectors_frame [of detectors env fs] by (metis prod.collapse)
  show ?thesis
    by (simp add: preload_import_ok [OF None l p] split: sum.splits)
qed

lemma preload_returns:
  assumes "library_raises_only_exceptions env"
  shows "fst (preload_deepface_models env fs) = Inr (deepface_import env = None)"
proof (cases "deepface_import env")
  case (Some e)
  then have "is_exception e" using assms by (simp add: library_raises_only_exceptions_def)
  with Some show ?thesis by (simp add: preload_import_fails)
next
  case None
  obtain r1 evs1 fs1 where l: "for_each models (load_model env) fs = (r1, evs1, fs1)"
    by (cases "for_each models (load_model env) fs")
  obtain r2 evs2 fs2 where p: "for_each detectors (probe_detector env) fs1 = (r2, evs2, fs2)"
    by (cases "for_each detectors (probe_detector env) fs1")
  have "\<forall>m\<in>set models. \<forall>fs e. fst (build_model env m fs) = Some e \<longrightarrow> is_exception e"
    using assms by (simp add: library_raises_only_exceptions_def)
  from load_models_continue [OF this, of fs] l have r1: "r1 = Inr ()" by simp
  have r2: "r2 = Inr ()"
  proof (cases r2)
    case (Inl e)
    then have "\<not> is_exception e" "functions_import env = Some e"
      using probe_detectors_cases [where ds = detectors and env = env and fs = fs1] p
      by (auto split: if_splits)
    then show ?thesis using assms by (simp add: library_raises_only_exceptions_def)
  next
    case (Inr u)
    then show ?thesis by simp
  qed
  show ?thesis
    using None by (simp add: preload_import_ok [OF None l p] r1 r2)
qed

lemma preload_flag:
  assumes "fst (preload_deepface_models env fs) = Inr b"
  shows "b = (deepface_import env = None)"
proof (cases "deepface_import env")
  case (Some e)
  with assms show ?thesis by (simp add: preload_import_fails split: if_splits)
next
  case None
  obtain r1 evs1 fs1 where l: "for_each models (load_model env) fs = (r1, evs1, fs1)"
    by (cases "for_each models (load_model env) fs")
  obtain r2 evs2 fs2 where p: "for_each detectors (probe_detector env) fs1 = (r2, evs2, fs2)"
    by (cases "for_each detectors (probe_detector env) fs1")
  show ?thesis
    using assms None by (simp add: preload_import_ok [OF None l p] split: sum.splits)
qed

lemma preload_trace:
  assumes "\<forall>m\<in>set models. \<forall>fs e. fst (build_model env m fs) = Some e \<longrightarrow> is_exception e"
  shows "attempts (fst (snd (preload_deepface_models env fs))) =
           (if deepface_import env = None then models else []) \<and>
         failures_logged (fst (snd (preload_deepface_models env fs)))"
proof (cases "deepface_import env")
  case (Some e)
  then show ?thesis
    by (simp add: preload_import_fails preamble_def attempts_def)
next
  case None
  obtain r1 evs1 fs1 where l: "for_each models (load_model env) fs = (r1, evs1, fs1)"
    by (cases "for_each models (load_model env) fs")
  obtain r2 evs2 fs2 where p: "for_each detectors (probe_detector env) fs1 = (r2, evs2, fs2)"
    by (cases "for_each detectors (probe_detector env) fs1")
  from load_models_continue [OF assms, of fs] l
  have l': "r1 = Inr ()" "attempts evs1 = models" "failures_logged evs1" by simp_all
  from probe_detectors_no_attempts [of detectors env fs1] p
  have p': "attempts evs2 = []" "failures_logged evs2" by simp_all
  have a: "attempts (fst (snd (preload_deepface_models env fs))) = models"
    using l' p'
    by (cases r2)
       (simp_all add: preload_import_ok [OF None l p] preamble_def attempts_append,
        simp_all add: attempts_def)
  have tail: "\<And>xs. failures_logged xs \<Longrightarrow> failures_logged (evs1 @ xs)"
    using l'(3) failures_logged_append by blast
  have tail2: "\<And>xs. failures_logged xs \<Longrightarrow> failures_logged (evs2 @ xs)"
    using p'(2) failures_logged_append by blast
  have f: "failures_logged (fst (snd (preload_deepface_models env fs)))"
    using l' p'
    by (cases r2)
       (simp_all add: preload_import_ok [OF None l p] preamble_def tail tail2)
  show ?thesis using a f None by simp
qed

lemma loads_imp:
  "library_raises_only_exceptions env \<Longrightarrow>
   \<forall>m\<in>set ms. \<forall>fs e. fst (build_model env m fs) = Some e \<longrightarrow> is_exception e"
  by (simp add: library_raises_only_exceptions_def)

lemma preload_import_error_message:
  assumes "deepface_import env = Some e" and "is_exception e"
  shows "last (printed (fst (snd (preload_deepface_models env fs)))) =
           (if is_import_error e then not_installed_line else preload_error_line e)"
  using assms by (simp add: preload_import_fails printed_def preamble_def)

lemma preload_probe_deferred:
  assumes "deepface_import env = None"
    and "loads_raise_only_exceptions env models"
    and "functions_import env = Some e" and "is_exception e"
  shows "set (map deferred_line detectors)
           \<subseteq> set (printed (fst (snd (preload_deepface_models env fs))))"
proof -
  obtain r1 evs1 fs1 where l: "for_each models (load_model env) fs = (r1, evs1, fs1)"
    by (cases "for_each models (load_model env) fs")
  have r1: "r1 = Inr ()"
    using load_models_continue [of models env fs] assms(2) l
    by (simp add: loads_raise_only_exceptions_def)
  note p = probe_detectors_deferred [OF assms(3,4), of detectors fs1]
  have "set (map deferred_line detectors)
      \<subseteq> set (concat (map (\<lambda>d. [probing_line d, deferred_line d]) detectors))"
    by auto
  then show ?thesis
    by (simp add: preload_import_ok [OF assms(1) l p] r1 printed_append printed_Cons_Print
        printed_probe_triples del: set_map set_concat) auto
qed

lemma preload_escape:
  assumes "fst (preload_deepface_models env fs) = Inl e"
  shows "\<not> is_exception e"
proof (cases "deepface_import env")
  case (Some x)
  with assms show ?thesis
    by (auto simp: preload_import_fails is_import_error_exception split: if_splits)
next
  case None
  obtain r1 evs1 fs1 where l: "for_each models (load_model env) fs = (r1, evs1, fs1)"
    by (cases "for_each models (load_model env) fs")
  obtain r2 evs2 fs2 where p: "for_each detectors (probe_detector env) fs1 = (r2, evs2, fs2)"
    by (cases "for_each detectors (probe_detector env) fs1")
  have n1: "r1 = Inl e \<Longrightarrow> \<not> is_exception e"
    using l load_models_raise by blast
  have n2: "r2 = Inl e \<Longrightarrow> \<not> is_exception e"
    using probe_detectors_cases [where ds = detectors and env = env and fs = fs1] p
    by (auto split: if_splits)
  show ?thesis
    using assms n1 n2 by (auto simp: preload_import_ok [OF None l p] split: sum.splits)
qed

subsection \<open>\<^verbatim>\<open>verify_weights\<close>\<close>

text \<open>The five ways through the function.\<close>

lemma verify_weights_home_raises:
  "path_home env = Inl e \<Longrightarrow>
   verify_weights env fs =
     (if is_exception e then (Inr (), [PathHome, Print (verify_error_line e)], fs)
      else (Inl e, [PathHome], fs))"
  by (simp add: verify_weights_def Let_def try_except_def seq_def Path_home_def py_print_def)

lemma verify_weights_stat_raises:
  "path_home env = Inr home \<Longrightarrow> stat_error env (weights_dir_of home) = Some e \<Longrightarrow>
   verify_weights env fs =
     (if is_exception e
      then (Inr (), [PathHome, PathExists (weights_dir_of home), Print (verify_error_line e)], fs)
      else (Inl e, [PathHome, PathExists (weights_dir_of home)], fs))"
  by (simp add: verify_weights_def Let_def try_except_def seq_def Path_home_def py_print_def
      path_exists_def)

lemma verify_weights_missing:
  "path_home env = Inr home \<Longrightarrow> stat_error env (weights_dir_of home) = None \<Longrightarrow>
   fs (weights_dir_of home) = None \<Longrightarrow>
   verify_weights env fs =
     (Inr (),
      [PathHome, PathExists (weights_dir_of home), Print (not_found_line (weights_dir_of home))],
      fs)"
  by (simp add: verify_weights_def Let_def try_except_def seq_def Path_home_def py_print_def
      path_exists_def)

lemma verify_weights_scandir_raises:
  "path_home env = Inr home \<Longrightarrow> stat_error env (weights_dir_of home) = None \<Longrightarrow>
   fs (weights_dir_of home) = Some es \<Longrightarrow> scandir_error env (weights_dir_of home) = Some e \<Longrightarrow>
   \<not> swallowed_by_glob env e \<Longrightarrow>
   verify_weights env fs =
     (if is_exception e
      then (Inr (),
            [PathHome, PathExists (weights_dir_of home), PathGlob (weights_dir_of home) ''*'',
             Print (verify_error_line e)], fs)
      else (Inl e,
            [PathHome, PathExists (weights_dir_of home), PathGlob (weights_dir_of home) ''*''], fs))"
  by (simp add: verify_weights_def Let_def try_except_def seq_def Path_home_def py_print_def
      path_exists_def path_glob_def)

lemma verify_weights_swallowed:
  "path_home env = Inr home \<Longrightarrow> stat_error env (weights_dir_of home) = None \<Longrightarrow>
   fs (weights_dir_of home) = Some es \<Longrightarrow> scandir_error env (weights_dir_of home) = Some e \<Longrightarrow>
   swallowed_by_glob env e \<Longrightarrow>
   verify_weights env fs =
     (Inr (),
      [PathHome, PathExists (weights_dir_of home), PathGlob (weights_dir_of home) ''*'',
       Print (found_line 0 (weights_dir_of home))],
      fs)"
  by (simp add: verify_weights_def Let_def try_except_def seq_def Path_home_def py_print_def
      path_exists_def path_glob_def)

lemma verify_weights_present:
  assumes "path_home env = Inr home"
    and "stat_error env (weights_dir_of home) = None"
    and "fs (weights_dir_of home) = Some es"
    and "scandir_error env (weights_dir_of home) = None"
  shows "verify_weights env fs =
     (Inr (),
      [PathHome, PathExists (weights_dir_of home), PathGlob (weights_dir_of home) ''*'']
        @ map Print (listing (weights_dir_of home) es),
      fs)"
proof -
  let ?wd = "weights_dir_of home"
  let ?wfs = "map (\<lambda>ent. ?wd @ [fst ent]) es"
  have names: "map (\<lambda>weight_file. py_print (file_line weight_file)) (take 5 ?wfs) =
      map py_print (map (\<lambda>ent. ''  - '' @ fst ent) (take 5 es))"
    by (simp add: take_map file_line_def path_name_def o_def)
  have blk: "block
       ([py_print (found_line (length ?wfs) ?wd)]
        @ map (\<lambda>weight_file. py_print (file_line weight_file)) (take 5 ?wfs)
        @ (if length ?wfs > 5 then [py_print (more_line (length ?wfs - 5))] else [])) fs =
     (Inr (), map Print (listing ?wd es), fs)"
  proof -
    have "[py_print (found_line (length ?wfs) ?wd)]
        @ map (\<lambda>weight_file. py_print (file_line weight_file)) (take 5 ?wfs)
        @ (if length ?wfs > 5 then [py_print (more_line (length ?wfs - 5))] else [])
      = map py_print (listing ?wd es)"
      unfolding names by (simp add: listing_def)
    then show ?thesis by (simp only: block_prints)
  qed
  show ?thesis
    using assms blk
    by (simp add: verify_weights_def Let_def try_except_def seq_def Path_home_def
        path_exists_def path_glob_def)
qed

lemma verify_weights_present_printed:
  assumes "path_home env = Inr home"
    and "stat_error env (weights_dir_of home) = None"
    and "fs (weights_dir_of home) = Some es"
    and "scandir_error env (weights_dir_of home) = None"
  shows "fst (verify_weights env fs) = Inr () \<and>
         printed (fst (snd (verify_weights env fs))) = listing (weights_dir_of home) es"
proof -
  have "printed ([PathHome, PathExists (weights_dir_of home), PathGlob (weights_dir_of home) ''*'']
          @ map Print (listing (weights_dir_of home) es)) = listing (weights_dir_of home) es"
    unfolding printed_append printed_map_Print by (simp add: printed_def)
  then show ?thesis
    by (simp add: verify_weights_present
        [where env = env and home = home and fs = fs and es = es, OF assms])
qed

lemma verify_weights_frame: "snd (snd (verify_weights env fs)) = fs"
proof (cases "path_home env")
  case (Inl e)
  then show ?thesis by (simp add: verify_weights_home_raises)
next
  case (Inr home)
  show ?thesis
  proof (cases "stat_error env (weights_dir_of home)")
    case (Some e)
    with Inr show ?thesis by (simp add: verify_weights_stat_raises)
  next
    case None
    note stat = this
    show ?thesis
    proof (cases "fs (weights_dir_of home)")
      case None
      with Inr stat show ?thesis by (simp add: verify_weights_missing)
    next
      case (Some es)
      show ?thesis
      proof (cases "scandir_error env (weights_dir_of home)")
        case None
        with Inr stat Some show ?thesis by (simp add: verify_weights_present)
      next
        case (Some e)
        with Inr stat \<open>fs (weights_dir_of home) = Some es\<close> show ?thesis
          by (cases "swallowed_by_glob env e")
             (simp_all add: verify_weights_scandir_raises verify_weights_swallowed)
      qed
    qed
  qed
qed

lemma verify_weights_caught:
  assumes "pathlib_raises_only_exceptions env"
  shows "fst (verify_weights env fs) = Inr () \<and>
         (case first_pathlib_error env fs of
            None \<Rightarrow> True
          | Some e \<Rightarrow> last (printed (fst (snd (verify_weights env fs)))) = verify_error_line e)"
proof (cases "path_home env")
  case (Inl e)
  then have "is_exception e" using assms by (simp add: pathlib_raises_only_exceptions_def)
  with Inl show ?thesis
    by (simp add: verify_weights_home_raises first_pathlib_error_def printed_def)
next
  case (Inr home)
  show ?thesis
  proof (cases "stat_error env (weights_dir_of home)")
    case (Some e)
    then have "is_exception e" using assms by (simp add: pathlib_raises_only_exceptions_def)
    with Inr Some show ?thesis
      by (simp add: verify_weights_stat_raises first_pathlib_error_def printed_def)
  next
    case None
    note stat = this
    show ?thesis
    proof (cases "fs (weights_dir_of home)")
      case None
      with Inr stat show ?thesis
        by (simp add: verify_weights_missing first_pathlib_error_def)
    next
      case (Some es)
      note dir = this
      show ?thesis
      proof (cases "scandir_error env (weights_dir_of home)")
        case None
        with Inr stat dir show ?thesis
          by (simp add: verify_weights_present first_pathlib_error_def)
      next
        case (Some e)
        then have "is_exception e" using assms by (simp add: pathlib_raises_only_exceptions_def)
        with Inr stat dir Some show ?thesis
          by (cases "swallowed_by_glob env e")
             (simp_all add: verify_weights_scandir_raises verify_weights_swallowed
                first_pathlib_error_def printed_def)
      qed
    qed
  qed
qed

lemma verify_weights_paths:
  assumes "path_home env = Inr home"
    and "PathExists p \<in> set (fst (snd (verify_weights env fs)))
         \<or> PathGlob p pat \<in> set (fst (snd (verify_weights env fs)))"
  shows "p = home @ [''.deepface'', ''weights'']"
proof (cases "stat_error env (weights_dir_of home)")
  case (Some e)
  with assms show ?thesis
    by (auto simp add: verify_weights_stat_raises weights_dir_of_def split: if_splits)
next
  case None
  note stat = this
  show ?thesis
  proof (cases "fs (weights_dir_of home)")
    case None
    with assms stat show ?thesis
      by (auto simp add: verify_weights_missing weights_dir_of_def)
  next
    case (Some es)
    note dir = this
    show ?thesis
    proof (cases "scandir_error env (weights_dir_of home)")
      case None
      with assms stat dir show ?thesis
        by (auto simp add: verify_weights_present
          [where env = env and home = home and fs = fs and es = es] weights_dir_of_def)
    next
      case (Some e)
      with assms stat dir show ?thesis
        by (cases "swallowed_by_glob env e")
           (auto simp add: verify_weights_scandir_raises
              [where env = env and home = home and fs = fs and es = es]
              verify_weights_swallowed
              [where env = env and home = home and fs = fs and es = es]
              weights_dir_of_def
            split: if_splits)
    qed
  qed
qed

lemma verify_escape:
  assumes "fst (verify_weights env fs) = Inl e"
  shows "\<not> is_exception e"
proof (cases "path_home env")
  case (Inl x)
  with assms show ?thesis by (auto simp: verify_weights_home_raises split: if_splits)
next
  case (Inr home)
  show ?thesis
  proof (cases "stat_error env (weights_dir_of home)")
    case (Some x)
    with Inr assms show ?thesis by (auto simp: verify_weights_stat_raises split: if_splits)
  next
    case None
    note stat = this
    show ?thesis
    proof (cases "fs (weights_dir_of home)")
      case None
      with Inr stat assms show ?thesis by (simp add: verify_weights_missing)
    next
      case (Some es)
      note dir = this
      show ?thesis
      proof (cases "scandir_error env (weights_dir_of home)")
        case None
        with Inr stat dir assms show ?thesis
          by (simp add: verify_weights_present
            [where env = env and home = home and fs = fs and es = es])
      next
        case (Some x)
        with Inr stat dir assms show ?thesis
          by (cases "swallowed_by_glob env x")
             (auto simp: verify_weights_scandir_raises
                [where env = env and home = home and fs = fs and es = es]
                verify_weights_swallowed
                [where env = env and home = home and fs = fs and es = es]
              split: if_splits)
      qed
    qed
  qed
qed

subsection \<open>The entry point\<close>

lemma main_result:
  assumes "preload_deepface_models env fs = (r1, evs1, fs1)"
    and "verify_weights env fs1 = (r2, evs2, fs2)"
  shows "main env fs =
     (case r1 of
        Inl e \<Rightarrow> (Inl e, Print (nl @ rocket @ '' Running startup script...'' @ nl) # evs1, fs1)
      | Inr success \<Rightarrow>
          (case r2 of
             Inl e \<Rightarrow>
               (Inl e, Print (nl @ rocket @ '' Running startup script...'' @ nl) # evs1 @ evs2, fs2)
           | Inr _ \<Rightarrow>
               (Inl (SystemExit 0),
                Print (nl @ rocket @ '' Running startup script...'' @ nl) # evs1 @ evs2
                  @ [Print (if success
                            then nl @ check_mark @ '' Startup script completed successfully''
                            else nl @ warning_sign @ '' Startup script completed with warnings'')],
                fs2)))"
  using assms
  by (simp add: main_def seq_def py_print_def sys_exit_def raise_def split: sum.splits)

lemma run_script_frame:
  assumes "\<forall>m fs0. snd (build_model env m fs0) = fs0"
  shows "snd (snd (run_script env fs)) = fs"
proof -
  obtain r1 evs1 where p: "preload_deepface_models env fs = (r1, evs1, fs)"
    using preload_frame [OF assms, of fs] by (metis prod.collapse)
  obtain r2 evs2 where v: "verify_weights env fs = (r2, evs2, fs)"
    using verify_weights_frame [of env fs] by (metis prod.collapse)
  show ?thesis
    by (simp add: run_script_def main_result [OF p v] split: sum.splits)
qed

subsection \<open>Accepted output and failures of class \<^verbatim>\<open>Exception\<close>\<close>

text \<open>
  With every line accepted and nothing raised but instances of \<^verbatim>\<open>Exception\<close>, the
  run ends in \<^verbatim>\<open>sys.exit(0)\<close>, and every exception has become a printed message.
\<close>

lemma run_script_exits_zero:
  assumes "library_raises_only_exceptions env" and "pathlib_raises_only_exceptions env"
  shows "fst (run_script env fs) = 0 \<and>
         last (printed (fst (snd (run_script env fs)))) =
           (if deepface_import env = None
            then nl @ check_mark @ '' Startup script completed successfully''
            else nl @ warning_sign @ '' Startup script completed with warnings'')"
proof -
  obtain r1 evs1 fs1 where p: "preload_deepface_models env fs = (r1, evs1, fs1)"
    by (cases "preload_deepface_models env fs")
  obtain r2 evs2 fs2 where v: "verify_weights env fs1 = (r2, evs2, fs2)"
    by (cases "verify_weights env fs1")
  have r1: "r1 = Inr (deepface_import env = None)"
    using preload_returns [OF assms(1), of fs] p by simp
  have r2: "r2 = Inr ()"
    using verify_weights_caught [OF assms(2), of fs1] v by simp
  have m: "main env fs =
      (Inl (SystemExit 0),
       (Print (nl @ rocket @ '' Running startup script...'' @ nl) # evs1 @ evs2)
         @ [Print (if deepface_import env = None
                   then nl @ check_mark @ '' Startup script completed successfully''
                   else nl @ warning_sign @ '' Startup script completed with warnings'')],
       fs2)"
    by (simp add: main_result [OF p v] r1 r2)
  show ?thesis
    unfolding run_script_def m by (simp only: prod.case fst_conv snd_conv exit_status.simps
      last_printed_snoc simp_thms)
qed

lemma failures_become_messages:
  assumes "library_raises_only_exceptions env" and "pathlib_raises_only_exceptions env"
  shows "(\<exists>b. fst (preload_deepface_models env fs) = Inr b) \<and>
         failures_logged (fst (snd (preload_deepface_models env fs))) \<and>
         (\<forall>e. deepface_import env = Some e \<longrightarrow>
            last (printed (fst (snd (preload_deepface_models env fs)))) =
              (if is_import_error e then not_installed_line else preload_error_line e)) \<and>
         (\<forall>e. deepface_import env = None \<and> functions_import env = Some e \<longrightarrow>
            set (map deferred_line detectors)
              \<subseteq> set (printed (fst (snd (preload_deepface_models env fs))))) \<and>
         fst (verify_weights env fs') = Inr () \<and>
         (\<forall>e. first_pathlib_error env fs' = Some e \<longrightarrow>
            last (printed (fst (snd (verify_weights env fs')))) = verify_error_line e)"
proof -
  have loads: "loads_raise_only_exceptions env models"
    using assms(1)
    by (simp add: loads_raise_only_exceptions_def library_raises_only_exceptions_def)
  have a: "\<exists>b. fst (preload_deepface_models env fs) = Inr b"
    using preload_returns [OF assms(1), of fs] by blast
  have b: "failures_logged (fst (snd (preload_deepface_models env fs)))"
    using preload_trace [OF loads_imp [OF assms(1)], of fs] by simp
  have c: "\<forall>e. deepface_import env = Some e \<longrightarrow>
            last (printed (fst (snd (preload_deepface_models env fs)))) =
              (if is_import_error e then not_installed_line else preload_error_line e)"
    using preload_import_error_message [of env _ fs] assms(1)
    by (simp add: library_raises_only_exceptions_def)
  have d: "\<forall>e. deepface_import env = None \<and> functions_import env = Some e \<longrightarrow>
            set (map deferred_line detectors)
              \<subseteq> set (printed (fst (snd (preload_deepface_models env fs))))"
  proof (intro allI impI)
    fix e
    assume h: "deepface_import env = None \<and> functions_import env = Some e"
    then have "is_exception e"
      using assms(1) by (simp add: library_raises_only_exceptions_def)
    with h loads show "set (map deferred_line detectors)
              \<subseteq> set (printed (fst (snd (preload_deepface_models env fs))))"
      using preload_probe_deferred [of env e fs] by blast
  qed
  have v: "fst (verify_weights env fs') = Inr ()"
    using verify_weights_caught [OF assms(2), of fs'] by simp
  have w: "\<forall>e. first_pathlib_error env fs' = Some e \<longrightarrow>
            last (printed (fst (snd (verify_weights env fs')))) = verify_error_line e"
    using verify_weights_caught [OF assms(2), of fs'] by (auto split: option.splits)
  from a b c d v w show ?thesis by blast
qed

subsection \<open>The script on a standard output that accepts every line\<close>

text \<open>
  On such an output \<open>print_on\<close> is \<open>py_print\<close>, and the two forms of the script are
  the same function.
\<close>

lemma print_on_accepts: "stdout_accepts out \<Longrightarrow> print_on out = py_print"
  by (intro ext) (simp add: stdout_accepts_def print_on_def py_print_def)

lemma load_model_on_accepts:
  assumes "stdout_accepts out"
  shows "load_model_on out env = load_model env"
  by (intro ext) (simp only: load_model_on_def load_model_def print_on_accepts [OF assms])

lemma probe_detector_on_accepts:
  assumes "stdout_accepts out"
  shows "probe_detector_on out env = probe_detector env"
  by (intro ext) (simp only: probe_detector_on_def probe_detector_def print_on_accepts [OF assms])

lemma preload_on_accepts:
  assumes "stdout_accepts out"
  shows "preload_deepface_models_on out env = preload_deepface_models env"
  unfolding preload_deepface_models_on_def preload_deepface_models_def
    print_on_accepts [OF assms] load_model_on_accepts [OF assms]
    probe_detector_on_accepts [OF assms]
  by (rule refl)

lemma verify_on_accepts:
  assumes "stdout_accepts out"
  shows "verify_weights_on out env = verify_weights env"
  unfolding verify_weights_on_def verify_weights_def print_on_accepts [OF assms]
  by (rule refl)

lemma main_on_accepts:
  assumes "stdout_accepts out"
  shows "main_on out env = main env"
  unfolding main_on_def main_def print_on_accepts [OF assms] preload_on_accepts [OF assms]
    verify_on_accepts [OF assms]
  by (rule refl)

lemma exit_status_on_accepts: "stdout_accepts out \<Longrightarrow> exit_status_on out r = exit_status r"
  by (auto simp: exit_status_on_def stdout_accepts_def split: sum.splits exn.splits)

lemma run_script_on_accepts:
  "stdout_accepts out \<Longrightarrow> run_script_on out env fs = run_script env fs"
  by (simp add: run_script_on_def run_script_def main_on_accepts exit_status_on_accepts)

section \<open>The claims\<close>

subsection \<open>C1: the exit status\<close>

text \<open>
  Claim C1 says that every execution of the entry point leaves with status 0. That
  fails when a call raises outside the \<^verbatim>\<open>Exception\<close> hierarchy: with the download
  interrupted from the keyboard, \<^verbatim>\<open>KeyboardInterrupt\<close> passes the handler of line 41
  and both handlers of lines 61 and 64, reaches the module level, and the interpreter
  leaves with status 130.
\<close>

theorem script_interrupted_exits_nonzero:
  "fst (run_script env_interrupted fs_empty) = 130 \<and>
   fst (run_script env_interrupted fs_empty) \<noteq> 0"
  by (simp add: ev env_defs)

text \<open>
  It fails too when standard output does not take what the script prints. The print of
  line 90 stands outside every \<^verbatim>\<open>try\<close>: on an ASCII output the rocket cannot be
  encoded and the status is 1. On a full device the flush at shutdown fails and the
  status is 120.
\<close>

lemma script_exits_one_when_output_cannot_encode:
  "fst (run_script_on ascii_stdout env_not_installed fs_empty) = 1"
  by (simp add: on_defs env_defs ascii_stdout_def nl_def rocket_def)

lemma script_exits_120_when_flush_fails:
  "fst (run_script_on full_device env_not_installed fs_empty) = 120"
  by (simp add: on_defs env_defs full_device_def)

text \<open>
  Claim C1, amended: in every execution in which standard output accepts every line and
  the final flush, and the calls of the library and of \<^verbatim>\<open>pathlib\<close> raise instances of
  \<^verbatim>\<open>Exception\<close> only, the process leaves with status 0, in the branch that reports
  success (the import succeeded) and in the branch that reports warnings alike.
\<close>

theorem script_exits_zero_when_output_accepted:
  assumes "stdout_accepts out"
    and "library_raises_only_exceptions env"
    and "pathlib_raises_only_exceptions env"
  shows "fst (run_script_on out env fs) = 0 \<and>
         last (printed (fst (snd (run_script_on out env fs)))) =
           (if deepface_import env = None
            then nl @ check_mark @ '' Startup script completed successfully''
            else nl @ warning_sign @ '' Startup script completed with warnings'')"
  unfolding run_script_on_accepts [OF assms(1)]
  by (rule run_script_exits_zero [OF assms(2,3)])

text \<open>Both branches: a partial failure with the library present, and the library absent.\<close>

theorem script_exits_zero_when_output_accepted_witness:
  "stdout_accepts accepting_stdout \<and>
   library_raises_only_exceptions env_load_fails \<and>
   pathlib_raises_only_exceptions env_load_fails \<and>
   fst (run_script_on accepting_stdout env_load_fails fs_empty) = 0 \<and>
   library_raises_only_exceptions env_not_installed \<and>
   pathlib_raises_only_exceptions env_not_installed \<and>
   fst (run_script_on accepting_stdout env_not_installed fs_empty) = 0"
proof -
  have o: "stdout_accepts accepting_stdout"
    by (simp add: stdout_accepts_def accepting_stdout_def)
  have a: "library_raises_only_exceptions env_load_fails"
    by (simp add: library_raises_only_exceptions_def env_defs)
  have b: "pathlib_raises_only_exceptions env_load_fails"
    by (simp add: pathlib_raises_only_exceptions_def env_defs)
  have c: "library_raises_only_exceptions env_not_installed"
    by (simp add: library_raises_only_exceptions_def env_defs)
  have d: "pathlib_raises_only_exceptions env_not_installed"
    by (simp add: pathlib_raises_only_exceptions_def env_defs)
  show ?thesis
    using o a b c d
      script_exits_zero_when_output_accepted [OF o a b, of fs_empty]
      script_exits_zero_when_output_accepted [OF o c d, of fs_empty]
    by simp
qed

subsection \<open>C2: the success flag\<close>



subsection \<open>C3: a failed load does not stop the loop\<close>




subsection \<open>C4: the listing of the weights directory\<close>



subsection \<open>C5: no exception escapes\<close>

text \<open>
  Claim C5 says that neither function ever propagates an exception, whatever the
  environment. An interrupted download propagates out of
  \<^verbatim>\<open>preload_deepface_models\<close>.
\<close>

theorem preload_propagates_interrupt:
  "fst (preload_deepface_models env_interrupted fs_empty) = Inl KeyboardInterrupt"
  by (simp add: ev env_defs)

text \<open>
  The handlers print too, outside the \<^verbatim>\<open>try\<close> they belong to. On an ASCII output
  the message of the handler of line 62 cannot be encoded, and the
  \<^verbatim>\<open>UnicodeEncodeError\<close>, an instance of \<^verbatim>\<open>Exception\<close>, leaves
  \<^verbatim>\<open>preload_deepface_models\<close>; in \<^verbatim>\<open>verify_weights\<close> the warning of line 84 is
  refused, the handler of line 86 takes the exception, and its own print of line 87 is
  refused in turn.
\<close>

lemma handler_print_escapes:
  "fst (preload_deepface_models_on ascii_stdout env_not_installed fs_empty) =
     Inl (OtherException ''ascii codec cannot encode character'') \<and>
   fst (verify_weights_on ascii_stdout env_ok fs_empty) =
     Inl (OtherException ''ascii codec cannot encode character'')"
  by (simp add: on_defs env_defs ascii_stdout_def banner_def not_installed_line_def
      not_found_line_def verify_error_line_def preload_error_line_def cross_mark_def
      warning_sign_def nl_def list_all_iff)

text \<open>
  Claim C5, amended: on a standard output that accepts every line, neither function
  propagates an instance of \<^verbatim>\<open>Exception\<close>, whatever the environment. When the calls
  of the library and of \<^verbatim>\<open>pathlib\<close> raise instances of \<^verbatim>\<open>Exception\<close> only, both
  functions return normally and every exception has become a printed message: a failed
  load is followed by its failure line, a failed import of the library ends the output
  with the not-installed line (for an \<^verbatim>\<open>ImportError\<close>) or the error line, a failed
  probe import gives every detector its deferred note, and an exception that a call of
  \<^verbatim>\<open>pathlib\<close> raises ends the output of \<^verbatim>\<open>verify_weights\<close> with the
  could-not-verify line.
\<close>

theorem exceptions_caught_when_output_accepted:
  assumes "stdout_accepts out"
  shows "(\<forall>e. fst (preload_deepface_models_on out env fs) = Inl e
              \<or> fst (verify_weights_on out env fs') = Inl e
            \<longrightarrow> \<not> is_exception e) \<and>
         (library_raises_only_exceptions env \<and> pathlib_raises_only_exceptions env \<longrightarrow>
            (\<exists>b. fst (preload_deepface_models_on out env fs) = Inr b) \<and>
            failures_logged (fst (snd (preload_deepface_models_on out env fs))) \<and>
            (\<forall>e. deepface_import env = Some e \<longrightarrow>
               last (printed (fst (snd (preload_deepface_models_on out env fs)))) =
                 (if is_import_error e then not_installed_line else preload_error_line e)) \<and>
            (\<forall>e. deepface_import env = None \<and> functions_import env = Some e \<longrightarrow>
               set (map deferred_line detectors)
                 \<subseteq> set (printed (fst (snd (preload_deepface_models_on out env fs))))) \<and>
            fst (verify_weights_on out env fs') = Inr () \<and>
            (\<forall>e. first_pathlib_error env fs' = Some e \<longrightarrow>
               last (printed (fst (snd (verify_weights_on out env fs')))) =
                 verify_error_line e))"
  unfolding preload_on_accepts [OF assms] verify_on_accepts [OF assms]
  using preload_escape [of env fs] verify_escape [of env fs']
    failures_become_messages [of env fs fs']
  by blast

text \<open>A failed download, a failed probe import and a refused \<^verbatim>\<open>stat\<close> in one run.\<close>

theorem exceptions_caught_when_output_accepted_witness:
  "stdout_accepts accepting_stdout \<and>
   library_raises_only_exceptions env_unreadable \<and>
   pathlib_raises_only_exceptions env_unreadable \<and>
   fst (preload_deepface_models_on accepting_stdout env_unreadable fs_empty) = Inr True \<and>
   fst (verify_weights_on accepting_stdout env_unreadable fs_empty) = Inr () \<and>
   last (printed (fst (snd (verify_weights_on accepting_stdout env_unreadable fs_empty)))) =
     warning_sign @ '' Could not verify weights: Permission denied''"
proof -
  have o: "stdout_accepts accepting_stdout"
    by (simp add: stdout_accepts_def accepting_stdout_def)
  have a: "library_raises_only_exceptions env_unreadable"
    by (simp add: library_raises_only_exceptions_def env_unreadable_def env_defs)
  have b: "pathlib_raises_only_exceptions env_unreadable"
    by (simp add: pathlib_raises_only_exceptions_def env_unreadable_def env_defs)
  have e: "first_pathlib_error env_unreadable fs_empty =
      Some (PermissionError ''Permission denied'')"
    by (simp add: first_pathlib_error_def env_unreadable_def env_defs)
  have i: "deepface_import env_unreadable = None"
    by (simp add: env_unreadable_def env_defs)
  note t = exceptions_caught_when_output_accepted
    [OF o, where env = env_unreadable and fs = fs_empty and fs' = fs_empty]
  obtain flag where flag:
    "fst (preload_deepface_models_on accepting_stdout env_unreadable fs_empty) = Inr flag"
    using t a b by blast
  have "flag = (deepface_import env_unreadable = None)"
    using flag preload_flag [of env_unreadable fs_empty] by (simp add: preload_on_accepts [OF o])
  then have p: "fst (preload_deepface_models_on accepting_stdout env_unreadable fs_empty) = Inr True"
    using flag i by simp
  have v: "fst (verify_weights_on accepting_stdout env_unreadable fs_empty) = Inr ()"
    using t a b by blast
  have m: "last (printed (fst (snd (verify_weights_on accepting_stdout env_unreadable fs_empty)))) =
      verify_error_line (PermissionError ''Permission denied'')"
    using t a b e by blast
  show ?thesis
    using o a b p v m by (simp add: verify_error_line_def)
qed

text \<open>
  An error of \<^verbatim>\<open>scandir\<close> that \<^verbatim>\<open>glob\<close> passes over is no exception of the
  script: the directory is reported with no files.
\<close>

lemma swallowed_scandir_error_reports_no_files:
  "printed (fst (snd (verify_weights
      (env_ok\<lparr>scandir_error := (\<lambda>p. Some (PermissionError ''Permission denied''))\<rparr>)
      fs_seven))) =
     [nl @ check_mark @ '' Found 0 weight file(s) in /home/ci/.deepface/weights'']"
  by (simp add: ev env_defs fs_seven_def swallowed_by_glob_def weights_dir_of_def printed_def
      found_line_def path_str_def str_nat.simps)

subsection \<open>C6: the library is absent\<close>

text \<open>
  Claim C6: when the import of line 17 raises \<^verbatim>\<open>ImportError\<close>, the function prints
  the banner, attempts the import, reports that the library is not installed and returns
  false; no model is loaded, no detector is probed, nothing is raised.
\<close>

theorem preload_skipped_when_not_installed:
  assumes "deepface_import env = Some (ImportError msg)"
  shows "preload_deepface_models env fs =
           (Inr False,
            [Print banner, Print ''Starting DeepFace model pre-loading...'', Print banner,
             ImportDeepFace,
             Print (cross_mark @ '' DeepFace not installed. Skipping model pre-loading.'')],
            fs)"
  using assms by (simp add: preload_import_fails preamble_def not_installed_line_def)

theorem preload_skipped_when_not_installed_witness:
  "deepface_import env_not_installed = Some (ImportError ''No module named deepface'') \<and>
   fst (preload_deepface_models env_not_installed fs_empty) = Inr False \<and>
   attempts (fst (snd (preload_deepface_models env_not_installed fs_empty))) = [] \<and>
   last (printed (fst (snd (preload_deepface_models env_not_installed fs_empty)))) =
     cross_mark @ '' DeepFace not installed. Skipping model pre-loading.''"
proof -
  have h: "deepface_import env_not_installed = Some (ImportError ''No module named deepface'')"
    by (simp add: env_defs)
  show ?thesis
    using h preload_skipped_when_not_installed [OF h, of fs_empty]
    by (simp add: attempts_def printed_def)
qed

subsection \<open>C7: a missing or empty weights directory\<close>

text \<open>
  Claim C7: with no weights directory, \<^verbatim>\<open>verify_weights\<close> prints a warning that
  names the directory, does not enumerate, and returns; with an empty directory it
  reports zero files and returns.
\<close>

theorem verify_weights_missing_or_empty:
  assumes "path_home env = Inr home" and "stat_error env (weights_dir_of home) = None"
  shows "(fs (weights_dir_of home) = None \<longrightarrow>
            verify_weights env fs =
              (Inr (),
               [PathHome, PathExists (weights_dir_of home),
                Print (nl @ warning_sign @ '' Weights directory not found: ''
                       @ path_str (weights_dir_of home))],
               fs)) \<and>
         (fs (weights_dir_of home) = Some [] \<and> scandir_error env (weights_dir_of home) = None \<longrightarrow>
            verify_weights env fs =
              (Inr (),
               [PathHome, PathExists (weights_dir_of home), PathGlob (weights_dir_of home) ''*'',
                Print (nl @ check_mark @ '' Found 0 weight file(s) in ''
                       @ path_str (weights_dir_of home))],
               fs))"
proof (intro conjI impI)
  assume "fs (weights_dir_of home) = None"
  with assms show "verify_weights env fs =
      (Inr (),
       [PathHome, PathExists (weights_dir_of home),
        Print (nl @ warning_sign @ '' Weights directory not found: ''
               @ path_str (weights_dir_of home))],
       fs)"
    by (simp add: verify_weights_missing not_found_line_def)
next
  assume h: "fs (weights_dir_of home) = Some [] \<and> scandir_error env (weights_dir_of home) = None"
  have zero: "str_nat 0 = ''0''" by (simp add: str_nat.simps)
  from h assms show "verify_weights env fs =
      (Inr (),
       [PathHome, PathExists (weights_dir_of home), PathGlob (weights_dir_of home) ''*'',
        Print (nl @ check_mark @ '' Found 0 weight file(s) in ''
               @ path_str (weights_dir_of home))],
       fs)"
    by (simp add: verify_weights_present
        [where env = env and home = home and fs = fs and es = "[]"]
        listing_def found_line_def zero)
qed

theorem verify_weights_missing_or_empty_witness:
  "path_home env_ok = Inr home_ci \<and>
   stat_error env_ok (weights_dir_of home_ci) = None \<and>
   fs_empty (weights_dir_of home_ci) = None \<and>
   verify_weights env_ok fs_empty =
     (Inr (),
      [PathHome, PathExists [''home'', ''ci'', ''.deepface'', ''weights''],
       Print (nl @ warning_sign @ '' Weights directory not found: /home/ci/.deepface/weights'')],
      fs_empty) \<and>
   fs_no_files (weights_dir_of home_ci) = Some [] \<and>
   scandir_error env_ok (weights_dir_of home_ci) = None \<and>
   verify_weights env_ok fs_no_files =
     (Inr (),
      [PathHome, PathExists [''home'', ''ci'', ''.deepface'', ''weights''],
       PathGlob [''home'', ''ci'', ''.deepface'', ''weights''] ''*'',
       Print (nl @ check_mark @ '' Found 0 weight file(s) in /home/ci/.deepface/weights'')],
      fs_no_files)"
proof -
  have h1: "path_home env_ok = Inr home_ci" by (simp add: env_defs)
  have h2: "stat_error env_ok (weights_dir_of home_ci) = None" by (simp add: env_defs)
  have h3: "fs_empty (weights_dir_of home_ci) = None" by (simp add: fs_empty_def)
  have h4: "fs_no_files (weights_dir_of home_ci) = Some []" by (simp add: fs_no_files_def)
  have h5: "scandir_error env_ok (weights_dir_of home_ci) = None" by (simp add: env_defs)
  note t1 = verify_weights_missing_or_empty
    [where env = env_ok and home = home_ci and fs = fs_empty, OF h1 h2]
  note t2 = verify_weights_missing_or_empty
    [where env = env_ok and home = home_ci and fs = fs_no_files, OF h1 h2]
  have a: "verify_weights env_ok fs_empty =
     (Inr (),
      [PathHome, PathExists [''home'', ''ci'', ''.deepface'', ''weights''],
       Print (nl @ warning_sign @ '' Weights directory not found: /home/ci/.deepface/weights'')],
      fs_empty)"
    using t1 h3 by (simp add: path_str_def weights_dir_of_def home_ci_def)
  have b: "verify_weights env_ok fs_no_files =
     (Inr (),
      [PathHome, PathExists [''home'', ''ci'', ''.deepface'', ''weights''],
       PathGlob [''home'', ''ci'', ''.deepface'', ''weights''] ''*'',
       Print (nl @ check_mark @ '' Found 0 weight file(s) in /home/ci/.deepface/weights'')],
      fs_no_files)"
    using t2 h4 h5 by (simp add: path_str_def weights_dir_of_def home_ci_def)
  from h1 h2 h3 h4 h5 a b show ?thesis by blast
qed

subsection \<open>C8: the weights directory is only read\<close>

text \<open>
  Claim C8: \<^verbatim>\<open>verify_weights\<close> leaves the file system as it found it, and the only
  path it asks about is \<^verbatim>\<open>.deepface/weights\<close> under the home directory. In a whole
  run the file system changes only through \<^verbatim>\<open>DeepFace.build_model\<close>: where the
  library writes nothing, the script leaves the file system unchanged.
\<close>

theorem weights_directory_only_read:
  "snd (snd (verify_weights env fs)) = fs \<and>
   ((\<forall>m fs0. snd (build_model env m fs0) = fs0) \<longrightarrow> snd (snd (run_script env fs)) = fs) \<and>
   (\<forall>home p pat.
      path_home env = Inr home \<and>
      (PathExists p \<in> set (fst (snd (verify_weights env fs)))
       \<or> PathGlob p pat \<in> set (fst (snd (verify_weights env fs))))
      \<longrightarrow> p = home @ [''.deepface'', ''weights''])"
  using verify_weights_frame [of env fs] run_script_frame [of env fs]
    verify_weights_paths [of env _ _ fs]
  by blast

theorem weights_directory_only_read_witness:
  "(\<forall>m fs0. snd (build_model env_load_fails m fs0) = fs0) \<and>
   snd (snd (run_script env_load_fails fs_seven)) = fs_seven \<and>
   snd (snd (verify_weights env_ok fs_seven)) = fs_seven"
proof -
  have h: "\<forall>m fs0. snd (build_model env_load_fails m fs0) = fs0"
    by (simp add: env_defs)
  show ?thesis
    using h weights_directory_only_read [of env_load_fails fs_seven]
      weights_directory_only_read [of env_ok fs_seven]
    by blast
qed

subsection \<open>C9: what the pattern \<^verbatim>\<open>"*"\<close> matches\<close>

text \<open>
  Claim C9 says that entries whose names begin with a dot are left out, so that a
  directory of hidden entries only is reported with the count 0. \<^verbatim>\<open>Path.glob\<close> does
  not hide them: such a directory with two entries is reported with the count 2, and
  both are listed.
\<close>

theorem hidden_entries_are_counted:
  "printed (fst (snd (verify_weights env_ok fs_hidden))) =
     [nl @ check_mark @ '' Found 2 weight file(s) in /home/ci/.deepface/weights'',
      ''  - .gitkeep'', ''  - .cache''] \<and>
   hd (printed (fst (snd (verify_weights env_ok fs_hidden))))
     \<noteq> nl @ check_mark @ '' Found 0 weight file(s) in /home/ci/.deepface/weights''"
  by (simp add: ev env_defs fs_hidden_def weights_dir_of_def printed_def found_line_def
      file_line_def path_str_def path_name_def str_nat.simps)

text \<open>
  Claim C9, amended: the enumeration gives one path for every entry of the weights
  directory, whatever its kind and whatever its name; the count printed is the number of
  entries, and the names listed are those of the first five.
\<close>

theorem glob_star_counts_every_entry:
  assumes "path_home env = Inr home"
    and "stat_error env (weights_dir_of home) = None"
    and "scandir_error env (weights_dir_of home) = None"
    and "fs (weights_dir_of home) = Some es"
  shows "fst (path_glob env (weights_dir_of home) fs) =
           Inr (map (\<lambda>ent. weights_dir_of home @ [fst ent]) es) \<and>
         hd (printed (fst (snd (verify_weights env fs)))) =
           found_line (length es) (weights_dir_of home) \<and>
         take (length (take 5 es)) (tl (printed (fst (snd (verify_weights env fs))))) =
           map (\<lambda>ent. ''  - '' @ fst ent) (take 5 es)"
proof -
  have g: "fst (path_glob env (weights_dir_of home) fs) =
      Inr (map (\<lambda>ent. weights_dir_of home @ [fst ent]) es)"
    using assms by (simp add: path_glob_def)
  have p: "printed (fst (snd (verify_weights env fs))) = listing (weights_dir_of home) es"
    using verify_weights_present_printed
      [where env = env and home = home and fs = fs and es = es, OF assms(1,2,4,3)]
    by simp
  show ?thesis
    using g by (simp add: p listing_def)
qed

text \<open>A hidden file, a directory and a regular file: the count is 3.\<close>

theorem glob_star_counts_every_entry_witness:
  "path_home env_ok = Inr home_ci \<and>
   stat_error env_ok (weights_dir_of home_ci) = None \<and>
   scandir_error env_ok (weights_dir_of home_ci) = None \<and>
   fs_mixed (weights_dir_of home_ci) =
     Some [(''.gitkeep'', RegularFile), (''models'', Directory),
           (''facenet_weights.h5'', RegularFile)] \<and>
   hd (printed (fst (snd (verify_weights env_ok fs_mixed)))) =
     nl @ check_mark @ '' Found 3 weight file(s) in /home/ci/.deepface/weights'' \<and>
   take 3 (tl (printed (fst (snd (verify_weights env_ok fs_mixed))))) =
     [''  - .gitkeep'', ''  - models'', ''  - facenet_weights.h5'']"
proof -
  have h1: "path_home env_ok = Inr home_ci" by (simp add: env_defs)
  have h2: "stat_error env_ok (weights_dir_of home_ci) = None" by (simp add: env_defs)
  have h3: "scandir_error env_ok (weights_dir_of home_ci) = None" by (simp add: env_defs)
  have h4: "fs_mixed (weights_dir_of home_ci) =
     Some [(''.gitkeep'', RegularFile), (''models'', Directory),
           (''facenet_weights.h5'', RegularFile)]"
    by (simp add: fs_mixed_def)
  note t = glob_star_counts_every_entry
    [where env = env_ok and home = home_ci and fs = fs_mixed, OF h1 h2 h3 h4]
  have a: "hd (printed (fst (snd (verify_weights env_ok fs_mixed)))) =
     nl @ check_mark @ '' Found 3 weight file(s) in /home/ci/.deepface/weights''"
    using t
    by (simp add: found_line_def weights_dir_of_def home_ci_def path_str_def str_nat.simps)
  have b: "take 3 (tl (printed (fst (snd (verify_weights env_ok fs_mixed))))) =
     [''  - .gitkeep'', ''  - models'', ''  - facenet_weights.h5'']"
    using t by (simp add: numeral_3_eq_3)
  from h1 h2 h3 h4 a b show ?thesis by blast
qed

subsection \<open>C10: the probe does not depend on the detector\<close>



end
